theory Spec2Isabelle
  imports Complex_Main "HOL-Library.Word"
begin

section \<open>Event voxel grids, size alignment and colour compositing of utils/inference\_utils.py\<close>

text \<open>
  The float64 columns of the event array, the float32 voxel grid and the float images are
  modelled by exact reals: every sum, product, quotient, \<open>ceil\<close>, \<open>floor\<close> and \<open>astype\<close> below is
  the mathematical one, and the rounding of float32 and float64 arithmetic is left out.
  Python's unbounded ints are \<open>int\<close>.  Arrays are lists, 2D arrays lists of rows.
\<close>

subsection \<open>Errors\<close>

datatype py_error = AssertionError | IndexError | ValueError | UnboundLocalError

subsection \<open>events\_to\_voxel\_grid (NumPy) and events\_to\_voxel\_grid\_pytorch\<close>

text \<open>A row \<open>[timestamp, x, y, polarity]\<close> of the \<open>N x 4\<close> float64 event array.\<close>

type_synonym event = "real \<times> real \<times> real \<times> real"

definition ev_t :: "event \<Rightarrow> real" where "ev_t e = fst e"
definition ev_x :: "event \<Rightarrow> real" where "ev_x e = fst (snd e)"
definition ev_y :: "event \<Rightarrow> real" where "ev_y e = fst (snd (snd e))"
definition ev_p :: "event \<Rightarrow> real" where "ev_p e = snd (snd (snd e))"

text \<open>\<open>.astype(np.int)\<close> and \<open>.long()\<close> on a float: truncation toward zero.\<close>

definition astype_int :: "real \<Rightarrow> int" where
  "astype_int r = (if 0 \<le> r then \<lfloor>r\<rfloor> else \<lceil>r\<rceil>)"

text \<open>
  \<open>np.add.at(a, indices, values)\<close> on a flat array, one (index, value) pair after the other:
  an index in \<open>[-len, 0)\<close> counts from the end, an index outside \<open>[-len, len)\<close> raises
  IndexError.
\<close>

fun np_add_at :: "real list \<Rightarrow> (int \<times> real) list \<Rightarrow> py_error + real list" where
  "np_add_at a [] = Inr a"
| "np_add_at a ((i, v) # rest) =
     (let n = int (length a) in
      if i < - n \<or> n \<le> i then Inl IndexError
      else let j = nat (if i < 0 then i + n else i)
           in np_add_at (a[j := a ! j + v]) rest)"

text \<open>\<open>Tensor.index_add_(dim=0, index, source)\<close> on a flat tensor: every index has to lie in
  \<open>[0, len)\<close>, a negative one is an error as well.\<close>

fun index_add :: "real list \<Rightarrow> (int \<times> real) list \<Rightarrow> py_error + real list" where
  "index_add a [] = Inr a"
| "index_add a ((i, v) # rest) =
     (if i < 0 \<or> int (length a) \<le> i then Inl IndexError
      else index_add (a[nat i := a ! nat i + v]) rest)"

text \<open>\<open>np.reshape(flat, (num_bins, height, width))\<close> and \<open>Tensor.view\<close>: row-major, the width
  varying fastest.\<close>

definition split_rows :: "nat \<Rightarrow> nat \<Rightarrow> 'a list \<Rightarrow> 'a list list" where
  "split_rows k n xs = map (\<lambda>i. take n (drop (i * n) xs)) [0..<k]"

definition reshape3 :: "'a list \<Rightarrow> nat \<Rightarrow> nat \<Rightarrow> nat \<Rightarrow> 'a list list list" where
  "reshape3 flat num_bins height width =
     map (split_rows height width) (split_rows num_bins (height * width) flat)"

text \<open>The timestamp column after \<open>events[:, 0] = (num_bins - 1) * (events[:, 0] - first_stamp) / deltaT\<close>,
  with \<open>deltaT\<close> replaced by 1.0 when it is zero.  Only called on a non-empty batch.\<close>

definition normalize_ts :: "event list \<Rightarrow> int \<Rightarrow> real \<Rightarrow> real" where
  "normalize_ts events num_bins t =
     (let last_stamp = ev_t (last events);
          first_stamp = ev_t (hd events);
          deltaT = last_stamp - first_stamp;
          deltaT = (if deltaT = 0 then 1 else deltaT)
      in real_of_int (num_bins - 1) * (t - first_stamp) / deltaT)"

definition rewrite_ts :: "event list \<Rightarrow> int \<Rightarrow> event list" where
  "rewrite_ts events num_bins =
     map (\<lambda>e. (normalize_ts events num_bins (ev_t e), ev_x e, ev_y e, ev_p e)) events"

text \<open>\<open>pols[pols == 0] = -1\<close>.  In the NumPy builder \<open>pols\<close> is a view of column 3 of the
  caller's array, so the assignment writes through.\<close>

definition fix_pol :: "real \<Rightarrow> real" where
  "fix_pol p = (if p = 0 then - 1 else p)"

definition rewrite_pols :: "event list \<Rightarrow> event list" where
  "rewrite_pols events = map (\<lambda>e. (ev_t e, ev_x e, ev_y e, fix_pol (ev_p e))) events"

text \<open>
  The NumPy builder.  The first component is the returned grid or the exception raised, the
  second the caller's event array after the call.  Rows of the rewritten array contribute
  \<open>pols * (1 - dts)\<close> at time bin \<open>tis\<close> when \<open>tis < num_bins\<close>, and \<open>pols * dts\<close> at bin
  \<open>tis + 1\<close> when \<open>tis + 1 < num_bins\<close>, where \<open>tis = ts.astype(np.int)\<close>.
\<close>

definition np_left :: "int \<Rightarrow> int \<Rightarrow> event \<Rightarrow> int \<times> real" where
  "np_left width height e =
     (let tis = astype_int (ev_t e); dts = ev_t e - real_of_int tis
      in (astype_int (ev_x e) + astype_int (ev_y e) * width + tis * width * height,
          ev_p e * (1 - dts)))"

definition np_right :: "int \<Rightarrow> int \<Rightarrow> event \<Rightarrow> int \<times> real" where
  "np_right width height e =
     (let tis = astype_int (ev_t e); dts = ev_t e - real_of_int tis
      in (astype_int (ev_x e) + astype_int (ev_y e) * width + (tis + 1) * width * height,
          ev_p e * dts))"

definition events_to_voxel_grid ::
  "event list \<Rightarrow> int \<Rightarrow> int \<Rightarrow> int \<Rightarrow> (py_error + real list list list) \<times> event list" where
  "events_to_voxel_grid events num_bins width height =
     (if \<not> 0 < num_bins \<or> \<not> 0 < width \<or> \<not> 0 < height then (Inl AssertionError, events)
      else if events = [] then (Inl IndexError, events)
      else
        let voxel_grid = replicate (nat (num_bins * height * width)) 0;
            events' = rewrite_pols (rewrite_ts events num_bins);
            lefts = map (np_left width height)
                      (filter (\<lambda>e. astype_int (ev_t e) < num_bins) events');
            rights = map (np_right width height)
                      (filter (\<lambda>e. astype_int (ev_t e) + 1 < num_bins) events')
        in case np_add_at voxel_grid lefts of
             Inl err \<Rightarrow> (Inl err, events')
           | Inr voxel_grid1 \<Rightarrow>
               (case np_add_at voxel_grid1 rights of
                  Inl err \<Rightarrow> (Inl err, events')
                | Inr voxel_grid2 \<Rightarrow>
                    (Inr (reshape3 voxel_grid2 (nat num_bins) (nat height) (nat width)), events')))"

text \<open>
  The PyTorch builder.  \<open>torch.from_numpy\<close> shares the caller's memory and \<open>.to(device)\<close> keeps
  it on the CPU, so there the timestamp rewrite reaches the caller; on a CUDA device the tensor
  is a copy.  \<open>pols = events_torch[:, 3].float()\<close> is a float32 copy of the float64 column, so
  the polarity rewrite stays local.  Here \<open>tis = torch.floor(ts)\<close>, with the extra mask
  \<open>tis >= 0\<close> on both sides.
\<close>

datatype device = Cpu | Cuda

definition torch_left :: "int \<Rightarrow> int \<Rightarrow> event \<Rightarrow> int \<times> real" where
  "torch_left width height e =
     (let tis = \<lfloor>ev_t e\<rfloor>; dts = ev_t e - real_of_int tis
      in (astype_int (ev_x e) + astype_int (ev_y e) * width + tis * width * height,
          fix_pol (ev_p e) * (1 - dts)))"

definition torch_right :: "int \<Rightarrow> int \<Rightarrow> event \<Rightarrow> int \<times> real" where
  "torch_right width height e =
     (let tis = \<lfloor>ev_t e\<rfloor>; dts = ev_t e - real_of_int tis
      in (astype_int (ev_x e) + astype_int (ev_y e) * width + (tis + 1) * width * height,
          fix_pol (ev_p e) * dts))"

definition events_to_voxel_grid_pytorch ::
  "event list \<Rightarrow> int \<Rightarrow> int \<Rightarrow> int \<Rightarrow> device
     \<Rightarrow> (py_error + real list list list) \<times> event list" where
  "events_to_voxel_grid_pytorch events num_bins width height dev =
     (if \<not> 0 < num_bins \<or> \<not> 0 < width \<or> \<not> 0 < height then (Inl AssertionError, events)
      else if events = [] then (Inl IndexError, events)
      else
        let voxel_grid = replicate (nat (num_bins * height * width)) 0;
            events_torch = rewrite_ts events num_bins;
            events' = (case dev of Cpu \<Rightarrow> events_torch | Cuda \<Rightarrow> events);
            lefts = map (torch_left width height)
                      (filter (\<lambda>e. \<lfloor>ev_t e\<rfloor> < num_bins \<and> 0 \<le> \<lfloor>ev_t e\<rfloor>) events_torch);
            rights = map (torch_right width height)
                      (filter (\<lambda>e. \<lfloor>ev_t e\<rfloor> + 1 < num_bins \<and> 0 \<le> \<lfloor>ev_t e\<rfloor>) events_torch)
        in case index_add voxel_grid lefts of
             Inl err \<Rightarrow> (Inl err, events')
           | Inr voxel_grid1 \<Rightarrow>
               (case index_add voxel_grid1 rights of
                  Inl err \<Rightarrow> (Inl err, events')
                | Inr voxel_grid2 \<Rightarrow>
                    (Inr (reshape3 voxel_grid2 (nat num_bins) (nat height) (nat width)), events')))"

subsection \<open>shift\_image, upsample\_color\_image and merge\_channels\_into\_color\_image\<close>

type_synonym image = "real list list"
type_synonym gray8 = "8 word list list"
type_synonym bgr8 = "(8 word \<times> 8 word \<times> 8 word) list list"

text \<open>\<open>np.roll\<close> of a one-dimensional array: element \<open>i\<close> of the result is element
  \<open>(i - shift) mod len\<close> of the argument.  The result is a new array.\<close>

definition np_roll :: "'a list \<Rightarrow> int \<Rightarrow> 'a list" where
  "np_roll xs shift =
     map (\<lambda>i. xs ! nat ((int i - shift) mod int (length xs))) [0..<length xs]"

text \<open>
  \<open>shift_image(X, dx, dy)\<close>: roll the rows by \<open>dy\<close> (axis 0) and every row by \<open>dx\<close> (axis 1),
  then \<open>X[:dy, :] = 0\<close> or \<open>X[dy:, :] = 0\<close>, and \<open>X[:, :dx] = 0\<close> or \<open>X[:, dx:] = 0\<close>, the slices
  clipped to the array as Python does.
\<close>

definition zero_rows :: "image \<Rightarrow> int \<Rightarrow> image" where
  "zero_rows X dy =
     (if 0 < dy then map (\<lambda>row. map (\<lambda>_. 0) row) (take (nat dy) X) @ drop (nat dy) X
      else if dy < 0 then
        (let k = nat (max (int (length X) + dy) 0)
         in take k X @ map (\<lambda>row. map (\<lambda>_. 0) row) (drop k X))
      else X)"

definition zero_cols :: "image \<Rightarrow> int \<Rightarrow> image" where
  "zero_cols X dx =
     (if 0 < dx then map (\<lambda>row. map (\<lambda>_. 0) (take (nat dx) row) @ drop (nat dx) row) X
      else if dx < 0 then
        map (\<lambda>row. let k = nat (max (int (length row) + dx) 0)
                   in take k row @ map (\<lambda>_. 0) (drop k row)) X
      else X)"

definition shift_image :: "image \<Rightarrow> int \<Rightarrow> int \<Rightarrow> image" where
  "shift_image X dx dy =
     (let X1 = np_roll X dy;
          X2 = map (\<lambda>row. np_roll row dx) X1
      in zero_cols (zero_rows X2 dy) dx)"

text \<open>\<open>(255.0 * v).astype(np.uint8)\<close> on one element: the product is truncated toward zero.
  For a product in \<open>[0, 256)\<close> that is its integer part; outside that range the conversion
  is taken modulo 256.\<close>

definition scale_to_uint8 :: "real \<Rightarrow> 8 word" where
  "scale_to_uint8 v = word_of_int (astype_int (255 * v))"

definition same_shape :: "'a list list \<Rightarrow> 'b list list \<Rightarrow> bool" where
  "same_shape X Y \<longleftrightarrow> map length X = map length Y"

text \<open>\<open>np.dstack([B, 0.5 * (G + W), R])\<close> followed by \<open>(255.0 * ...).astype(np.uint8)\<close>.  Arrays
  of different shapes make NumPy raise ValueError (the arrays come out of a factor-2 resize, so
  no axis has length 1 and nothing is broadcast).\<close>

definition reconstruction_bgr :: "image \<Rightarrow> image \<Rightarrow> image \<Rightarrow> image \<Rightarrow> py_error + bgr8" where
  "reconstruction_bgr B G W R =
     (if same_shape G W \<and> same_shape B G \<and> same_shape B R then
        Inr (map (\<lambda>y. map (\<lambda>x. (scale_to_uint8 (B ! y ! x),
                                 scale_to_uint8 (0.5 * (G ! y ! x + W ! y ! x)),
                                 scale_to_uint8 (R ! y ! x)))
                        [0..<length (B ! y)])
                 [0..<length B])
      else Inl ValueError)"

definition reconstruction_grayscale :: "image \<Rightarrow> gray8" where
  "reconstruction_grayscale gray = map (map scale_to_uint8) gray"

text \<open>
  \<open>upsample_color_image(grayscale_highres, color_lowres_bgr, colorspace)\<close>.  The OpenCV
  colour conversion is a parameter \<open>cvtColor code img\<close>.  The lightness or value channel of the
  converted image (index 0 for LAB, 2 for HSV, 1 for HLS) is overwritten by the grayscale
  image, which has to have the shape of the colour image (NumPy's broadcasting of an axis of
  length 1 is left out); any other colour space leaves the result unassigned.
\<close>

definition set_channel :: "nat \<Rightarrow> bgr8 \<Rightarrow> gray8 \<Rightarrow> py_error + bgr8" where
  "set_channel c img gray =
     (if same_shape img gray then
        Inr (map (\<lambda>y. map (\<lambda>x. case img ! y ! x of (p0, p1, p2) \<Rightarrow>
                               let v = gray ! y ! x
                               in if c = 0 then (v, p1, p2)
                                  else if c = 1 then (p0, v, p2) else (p0, p1, v))
                        [0..<length (img ! y)])
                 [0..<length img])
      else Inl ValueError)"

definition upsample_color_image ::
  "(string \<Rightarrow> bgr8 \<Rightarrow> bgr8) \<Rightarrow> gray8 \<Rightarrow> bgr8 \<Rightarrow> string \<Rightarrow> py_error + bgr8" where
  "upsample_color_image cvtColor grayscale_highres color_lowres_bgr colorspace =
     (if colorspace = ''LAB'' then
        (case set_channel 0 (cvtColor ''COLOR_BGR2LAB'' color_lowres_bgr) grayscale_highres of
           Inl err \<Rightarrow> Inl err
         | Inr lab \<Rightarrow> Inr (cvtColor ''COLOR_LAB2BGR'' lab))
      else if colorspace = ''HSV'' then
        (case set_channel 2 (cvtColor ''COLOR_BGR2HSV'' color_lowres_bgr) grayscale_highres of
           Inl err \<Rightarrow> Inl err
         | Inr hsv \<Rightarrow> Inr (cvtColor ''COLOR_HSV2BGR'' hsv))
      else if colorspace = ''HLS'' then
        (case set_channel 1 (cvtColor ''COLOR_BGR2HLS'' color_lowres_bgr) grayscale_highres of
           Inl err \<Rightarrow> Inl err
         | Inr hls \<Rightarrow> Inr (cvtColor ''COLOR_HLS2BGR'' hls))
      else Inl UnboundLocalError)"

text \<open>
  \<open>merge_channels_into_color_image(channels)\<close>.  The dictionary is a map from channel names to
  images; \<open>resize\<close> stands for \<open>cv2.resize(..., fx=2, fy=2, interpolation=cv2.INTER_CUBIC)\<close>.
  The assignments \<open>channels[channel] = ...\<close> write into the caller's dictionary, so the second
  component is the dictionary after the call.
\<close>

definition merge_channels_into_color_image ::
  "(image \<Rightarrow> image) \<Rightarrow> (string \<Rightarrow> bgr8 \<Rightarrow> bgr8) \<Rightarrow> (string \<rightharpoonup> image)
     \<Rightarrow> (py_error + bgr8) \<times> (string \<rightharpoonup> image)" where
  "merge_channels_into_color_image resize cvtColor channels =
     (case (channels ''R'', channels ''G'', channels ''W'', channels ''B'', channels ''grayscale'') of
        (Some R0, Some G0, Some W0, Some B0, Some gray) \<Rightarrow>
          let R = resize R0; G = resize G0; W = resize W0; B = resize B0;
              B = shift_image B 1 1;
              G = shift_image G 1 0;
              W = shift_image W 0 1;
              channels' = channels(''R'' \<mapsto> R, ''G'' \<mapsto> G, ''W'' \<mapsto> W, ''B'' \<mapsto> B)
          in (case reconstruction_bgr B G W R of
                Inl err \<Rightarrow> (Inl err, channels')
              | Inr bgr \<Rightarrow>
                  (upsample_color_image cvtColor (reconstruction_grayscale gray) bgr ''LAB'',
                   channels'))
      | _ \<Rightarrow> (Inl AssertionError, channels))"

subsection \<open>optimal\_crop\_size and CropParameters\<close>

text \<open>
  \<open>pow(2, max_subsample_factor)\<close> for the number of encoder levels, a count, taken as a
  natural number; \<open>max_size / pow(...)\<close> is Python 3 true division, \<open>int(...)\<close> of an int
  is the identity.
\<close>

definition optimal_crop_size :: "int \<Rightarrow> nat \<Rightarrow> int \<Rightarrow> int" where
  "optimal_crop_size max_size max_subsample_factor safety_margin =
     (let crop_size = 2 ^ max_subsample_factor
            * \<lceil>real_of_int max_size / real_of_int (2 ^ max_subsample_factor)\<rceil>
      in crop_size + safety_margin * 2 ^ max_subsample_factor)"

record CropParameters =
  height :: int
  width :: int
  num_encoders :: nat
  width_crop_size :: int
  height_crop_size :: int
  padding_top :: int
  padding_bottom :: int
  padding_left :: int
  padding_right :: int
  cx :: int
  cy :: int
  ix0 :: int
  ix1 :: int
  iy0 :: int
  iy1 :: int

text \<open>\<open>CropParameters.__init__(self, width, height, num_encoders, safety_margin)\<close>; the
  attribute \<open>pad\<close> only wraps the four paddings and is omitted.\<close>

definition CropParameters_init :: "int \<Rightarrow> int \<Rightarrow> nat \<Rightarrow> int \<Rightarrow> CropParameters" where
  "CropParameters_init w h n safety_margin =
     (let wcs = optimal_crop_size w n safety_margin;
          hcs = optimal_crop_size h n safety_margin;
          ccx = \<lfloor>real_of_int wcs / 2\<rfloor>;
          ccy = \<lfloor>real_of_int hcs / 2\<rfloor>
      in \<lparr> height = h, width = w, num_encoders = n,
           width_crop_size = wcs, height_crop_size = hcs,
           padding_top = \<lceil>0.5 * real_of_int (hcs - h)\<rceil>,
           padding_bottom = \<lfloor>0.5 * real_of_int (hcs - h)\<rfloor>,
           padding_left = \<lceil>0.5 * real_of_int (wcs - w)\<rceil>,
           padding_right = \<lfloor>0.5 * real_of_int (wcs - w)\<rfloor>,
           cx = ccx, cy = ccy,
           ix0 = ccx - \<lfloor>real_of_int w / 2\<rfloor>,
           ix1 = ccx + \<lceil>real_of_int w / 2\<rceil>,
           iy0 = ccy - \<lfloor>real_of_int h / 2\<rfloor>,
           iy1 = ccy + \<lceil>real_of_int h / 2\<rceil> \<rparr>)"

text \<open>
  Modelled from the spec: the padding operator that consumes \<open>pad_left, pad_right, pad_top,
  pad_bottom\<close> (section 6 of the spec; the code hands the four amounts to torch's ZeroPad2d and
  applies it outside this file).  The border pixel at row \<open>r\<close>, column \<open>c\<close> of the padded
  canvas gets the value \<open>fill r c\<close>, any value at all.
\<close>

definition pad_row :: "(nat \<Rightarrow> 'a) \<Rightarrow> nat \<Rightarrow> nat \<Rightarrow> 'a list \<Rightarrow> 'a list" where
  "pad_row fillr pl pr row =
     map fillr [0..<pl] @ row @ map (\<lambda>c. fillr (pl + length row + c)) [0..<pr]"

definition pad_image ::
  "(nat \<Rightarrow> nat \<Rightarrow> 'a) \<Rightarrow> nat \<Rightarrow> nat \<Rightarrow> nat \<Rightarrow> nat \<Rightarrow> 'a list list \<Rightarrow> 'a list list" where
  "pad_image fill pl pr pt pb img =
     (let W = (case img of [] \<Rightarrow> 0 | row # _ \<Rightarrow> length row);
          full = (\<lambda>r. map (fill r) [0..<pl + W + pr])
      in map full [0..<pt]
         @ map (\<lambda>(r, row). pad_row (fill (pt + r)) pl pr row) (enumerate 0 img)
         @ map (\<lambda>r. full (pt + length img + r)) [0..<pb])"

text \<open>Python's slice \<open>xs[a:b]\<close> for int bounds: a negative bound counts from the end, and
  both are clipped to the list.\<close>

definition py_slice :: "'a list \<Rightarrow> int \<Rightarrow> int \<Rightarrow> 'a list" where
  "py_slice xs a b =
     (let n = int (length xs);
          a' = (if a < 0 then max (a + n) 0 else min a n);
          b' = (if b < 0 then max (b + n) 0 else min b n)
      in take (nat (b' - a')) (drop (nat a') xs))"

text \<open>
  Modelled from the spec: the cropping operator that applies \<open>crop_y0:crop_y1, crop_x0:crop_x1\<close>
  to a working-resolution image (section 6 of the spec; in the code the window is the attributes
  \<open>iy0:iy1, ix0:ix1\<close>, sliced outside this file).
\<close>

definition crop_image :: "CropParameters \<Rightarrow> 'a list list \<Rightarrow> 'a list list" where
  "crop_image cp img = map (\<lambda>row. py_slice row (ix0 cp) (ix1 cp)) (py_slice img (iy0 cp) (iy1 cp))"

subsection \<open>Auxiliary notions used in the statements\<close>

text \<open>The total of the values voted for flat index \<open>k\<close> in a list of (index, value) pairs.\<close>

definition votes_at :: "int \<Rightarrow> (int \<times> real) list \<Rightarrow> real" where
  "votes_at k ivs = sum_list (map snd (filter (\<lambda>iv. fst iv = k) ivs))"

section \<open>Voxel grids\<close>

lemma votes_at_Nil [simp]: "votes_at k [] = 0"
  by (simp add: votes_at_def)

lemma votes_at_Cons [simp]: "votes_at k ((i, v) # rest) = (if i = k then v else 0) + votes_at k rest"
  by (simp add: votes_at_def)

lemma votes_at_append: "votes_at k (xs @ ys) = votes_at k xs + votes_at k ys"
  by (simp add: votes_at_def)




lemma length_split_rows [simp]: "length (split_rows k n xs) = k"
  by (simp add: split_rows_def)














lemma ev_simps [simp]:
  "ev_t (t, x, y, p) = t" "ev_x (t, x, y, p) = x" "ev_y (t, x, y, p) = y" "ev_p (t, x, y, p) = p"
  by (simp_all add: ev_t_def ev_x_def ev_y_def ev_p_def)

















lemma np_events_after:
  assumes "0 < nb" "0 < w" "0 < h" "events \<noteq> []"
  shows "snd (events_to_voxel_grid events nb w h) = rewrite_pols (rewrite_ts events nb)"
  using assms by (simp add: events_to_voxel_grid_def Let_def split: sum.splits)













text \<open>
  Claim C1.  An event whose time bin falls outside \<open>[0, num_bins)\<close> should be dropped for
  that side without an error and without touching another cell.  The PyTorch builder masks
  both sides with \<open>tis >= 0\<close> (lemma \<open>torch_cell\<close> gives its cells for every batch); the NumPy
  builder has no such mask.  In the unsorted batches below the second event precedes the
  first one, so its normalized position is negative.  At position -2 the NumPy builder adds
  the event's polarity to time bin 1 through the negative flat index -2; at position -1/2
  truncation gives bin 0 and a negative fraction, so 3/2 goes to bin 0 and -1/2 to bin 1; at
  position -12 the flat index is out of range and \<open>np.add.at\<close> raises IndexError.  The PyTorch
  builder returns the grid of the two in-range events each time.
\<close>

theorem numpy_builder_negative_bin:
  "normalize_ts [(1, 0, 0, 1), (0, 0, 0, 1), (2, 0, 0, 1)] 3 0 = - 2
   \<and> fst (events_to_voxel_grid [(1, 0, 0, 1), (0, 0, 0, 1), (2, 0, 0, 1)] 3 1 1)
        = Inr [[[1]], [[1]], [[1]]]
   \<and> fst (events_to_voxel_grid_pytorch [(1, 0, 0, 1), (0, 0, 0, 1), (2, 0, 0, 1)] 3 1 1 Cpu)
        = Inr [[[1]], [[0]], [[1]]]
   \<and> normalize_ts [(1, 0, 0, 1), (3 / 4, 0, 0, 1), (2, 0, 0, 1)] 3 (3 / 4) = - (1 / 2)
   \<and> fst (events_to_voxel_grid [(1, 0, 0, 1), (3 / 4, 0, 0, 1), (2, 0, 0, 1)] 3 1 1)
        = Inr [[[5 / 2]], [[- (1 / 2)]], [[1]]]
   \<and> fst (events_to_voxel_grid_pytorch [(1, 0, 0, 1), (3 / 4, 0, 0, 1), (2, 0, 0, 1)] 3 1 1 Cpu)
        = Inr [[[1]], [[0]], [[1]]]
   \<and> normalize_ts [(1, 0, 0, 1), (- 5, 0, 0, 1), (2, 0, 0, 1)] 3 (- 5) = - 12
   \<and> fst (events_to_voxel_grid [(1, 0, 0, 1), (- 5, 0, 0, 1), (2, 0, 0, 1)] 3 1 1)
        = Inl IndexError
   \<and> fst (events_to_voxel_grid_pytorch [(1, 0, 0, 1), (- 5, 0, 0, 1), (2, 0, 0, 1)] 3 1 1 Cpu)
        = Inr [[[1]], [[0]], [[1]]]"
  by (intro conjI; code_simp)

theorem numpy_builder_negative_bin_witness:
  "fst (events_to_voxel_grid [(1, 0, 0, 1), (0, 0, 0, 1), (2, 0, 0, 1)] 3 1 1)
     \<noteq> fst (events_to_voxel_grid_pytorch [(1, 0, 0, 1), (0, 0, 0, 1), (2, 0, 0, 1)] 3 1 1 Cpu)"
  using numpy_builder_negative_bin by simp

section \<open>Colour compositing\<close>

lemma length_np_roll [simp]: "length (np_roll xs s) = length xs"
  by (simp add: np_roll_def)

lemma nth_np_roll:
  "i < length xs \<Longrightarrow> np_roll xs s ! i = xs ! nat ((int i - s) mod int (length xs))"
  by (simp add: np_roll_def)

lemma roll_index_in_range:
  assumes "i < n"
  shows "nat ((int i - s) mod int n) < n"
proof -
  have "0 < int n" using assms by simp
  then have "0 \<le> (int i - s) mod int n" "(int i - s) mod int n < int n"
    by (rule pos_mod_sign, rule pos_mod_bound)
  then show ?thesis by linarith
qed

lemma roll_index_shifted:
  assumes "i < n" "0 \<le> s" "s \<le> int i"
  shows "nat ((int i - s) mod int n) = nat (int i - s)"
proof -
  have "0 \<le> int i - s" "int i - s < int n" using assms by linarith+
  then have "(int i - s) mod int n = int i - s" by (rule mod_pos_pos_trivial)
  then show ?thesis by simp
qed

lemma nth_map_take_drop:
  assumes "i < length xs"
  shows "(map f (take k xs) @ drop k xs) ! i = (if i < k then f (xs ! i) else xs ! i)"
proof (cases "i < k")
  case True
  then show ?thesis using assms by (simp add: nth_append)
next
  case False
  then have "min (length xs) k = k" using assms by simp
  then show ?thesis using False assms by (simp add: nth_append)
qed

lemma length_zero_rows [simp]: "length (zero_rows X dy) = length X"
proof -
  have a: "length (map f (take k xs) @ drop k xs) = length xs" for f :: "real list \<Rightarrow> real list" and k xs
    by (simp add: min_def)
  have b: "length (take k xs @ map f (drop k xs)) = length xs" for f :: "real list \<Rightarrow> real list" and k xs
    by (simp add: min_def)
  show ?thesis
  proof (cases "0 < dy")
    case True
    then show ?thesis unfolding zero_rows_def Let_def by (simp only: a if_True)
  next
    case False
    show ?thesis
    proof (cases "dy < 0")
      case True
      then show ?thesis unfolding zero_rows_def Let_def using False by (simp only: b if_True if_False)
    next
      case nn: False
      then show ?thesis unfolding zero_rows_def Let_def using False by (simp only: if_False)
    qed
  qed
qed

lemma nth_zero_rows:
  assumes "y < length X" "0 \<le> dy"
  shows "zero_rows X dy ! y = (if int y < dy then map (\<lambda>_. 0) (X ! y) else X ! y)"
proof (cases "0 < dy")
  case True
  have "(int y < dy) = (y < nat dy)" using True by linarith
  then show ?thesis using True assms by (simp add: zero_rows_def nth_map_take_drop)
next
  case False
  then show ?thesis using assms by (simp add: zero_rows_def)
qed

lemma length_zero_cols [simp]: "length (zero_cols X dx) = length X"
  by (simp add: zero_cols_def)

lemma nth_zero_cols:
  assumes "y < length X" "0 \<le> dx"
  shows "zero_cols X dx ! y = (if 0 < dx then map (\<lambda>_. 0) (take (nat dx) (X ! y)) @ drop (nat dx) (X ! y) else X ! y)"
  using assms by (simp add: zero_cols_def)

lemma nth_zero_prefix:
  assumes "x < length row" "0 \<le> dx"
  shows "(if 0 < dx then map (\<lambda>_. 0) (take (nat dx) row) @ drop (nat dx) row else row) ! x
       = (if int x < dx then (0::real) else row ! x)"
    and "length (if 0 < dx then map (\<lambda>_. 0::real) (take (nat dx) row) @ drop (nat dx) row else row) = length row"
proof -
  have "(int x < dx) = (x < nat dx)" using assms by linarith
  then show "(if 0 < dx then map (\<lambda>_. 0) (take (nat dx) row) @ drop (nat dx) row else row) ! x
       = (if int x < dx then (0::real) else row ! x)"
    using assms by (simp add: nth_map_take_drop)
  show "length (if 0 < dx then map (\<lambda>_. 0::real) (take (nat dx) row) @ drop (nat dx) row else row) = length row"
    by (simp add: min_def)
qed

lemma shift_image_pixels:
  assumes rect: "\<forall>row \<in> set X. length row = Wd" and dx: "0 \<le> dx" and dy: "0 \<le> dy"
  shows "length (shift_image X dx dy) = length X"
    and "y < length X \<Longrightarrow> length (shift_image X dx dy ! y) = Wd"
    and "y < length X \<Longrightarrow> x < Wd \<Longrightarrow>
           shift_image X dx dy ! y ! x
             = (if dy \<le> int y \<and> dx \<le> int x then X ! nat (int y - dy) ! nat (int x - dx) else 0)"
proof -
  let ?X1 = "np_roll X dy"
  let ?X2 = "map (\<lambda>row. np_roll row dx) ?X1"
  let ?X3 = "zero_rows ?X2 dy"
  have sh: "shift_image X dx dy = zero_cols ?X3 dx" by (simp add: shift_image_def Let_def)
  show "length (shift_image X dx dy) = length X" by (simp add: sh)
  {
    assume y: "y < length X"
    let ?src = "X ! nat ((int y - dy) mod int (length X))"
    have src_in: "?src \<in> set X" using roll_index_in_range [OF y] by simp
    then have len_src: "length ?src = Wd" using rect by simp
    have x2: "?X2 ! y = np_roll ?src dx" using y by (simp add: nth_np_roll)
    have x3: "?X3 ! y = (if int y < dy then map (\<lambda>_. 0) (np_roll ?src dx) else np_roll ?src dx)"
      using y dy by (simp add: nth_zero_rows x2)
    have len3: "length (?X3 ! y) = Wd" by (simp add: x3 len_src)
    have row: "shift_image X dx dy ! y
        = (if 0 < dx then map (\<lambda>_. 0) (take (nat dx) (?X3 ! y)) @ drop (nat dx) (?X3 ! y) else ?X3 ! y)"
      unfolding sh using y dx by (simp add: nth_zero_cols)
    show "length (shift_image X dx dy ! y) = Wd"
      unfolding row using len3 by (simp add: min_def)
    assume x: "x < Wd"
    have x': "x < length (?X3 ! y)" using x len3 by simp
    have px: "shift_image X dx dy ! y ! x = (if int x < dx then 0 else ?X3 ! y ! x)"
      unfolding row by (rule nth_zero_prefix(1) [OF x' dx])
    show "shift_image X dx dy ! y ! x
             = (if dy \<le> int y \<and> dx \<le> int x then X ! nat (int y - dy) ! nat (int x - dx) else 0)"
    proof (cases "dy \<le> int y")
      case False
      then show ?thesis using x len_src by (simp add: px x3)
    next
      case True
      have s: "?src = X ! nat (int y - dy)" using roll_index_shifted [OF y dy True] by simp
      show ?thesis
      proof (cases "dx \<le> int x")
        case False
        then show ?thesis by (simp add: px)
      next
        case dxx: True
        have xs: "x < length ?src" using x len_src by simp
        have "?X3 ! y ! x = ?src ! nat ((int x - dx) mod int (length ?src))"
          using True xs by (simp add: x3 nth_np_roll)
        also have "\<dots> = ?src ! nat (int x - dx)"
          using roll_index_shifted [OF xs dx dxx] by simp
        finally show ?thesis using True dxx by (simp add: px s)
      qed
    qed
  }
qed

lemma merge_present:
  assumes "channels ''R'' = Some R0" "channels ''G'' = Some G0" "channels ''W'' = Some W0"
    "channels ''B'' = Some B0" "channels ''grayscale'' = Some gray"
  shows "merge_channels_into_color_image resize cvtColor channels =
     (case reconstruction_bgr (shift_image (resize B0) 1 1) (shift_image (resize G0) 1 0)
             (shift_image (resize W0) 0 1) (resize R0) of
        Inl err \<Rightarrow> Inl err
      | Inr bgr \<Rightarrow> upsample_color_image cvtColor (reconstruction_grayscale gray) bgr ''LAB'',
      channels(''R'' \<mapsto> resize R0, ''G'' \<mapsto> shift_image (resize G0) 1 0,
               ''W'' \<mapsto> shift_image (resize W0) 0 1, ''B'' \<mapsto> shift_image (resize B0) 1 1))"
  using assms by (simp add: merge_channels_into_color_image_def Let_def split: sum.splits)

lemma merge_missing:
  assumes "channels ''R'' = None \<or> channels ''G'' = None \<or> channels ''W'' = None
    \<or> channels ''B'' = None \<or> channels ''grayscale'' = None"
  shows "merge_channels_into_color_image resize cvtColor channels = (Inl AssertionError, channels)"
  using assms by (auto simp: merge_channels_into_color_image_def split: option.splits)




text \<open>
  Claim C9.  \<open>shift_image\<close> is a clamped shift: on a rectangular array and for non-negative
  shifts (the compositor uses 0 and 1) the result has the shape of the argument, pixel
  \<open>(y, x)\<close> is \<open>X[y - dy, x - dx]\<close> when both indices are in range and 0 otherwise, so the \<open>dy\<close>
  top rows and \<open>dx\<close> left columns are zero and nothing wraps around.  The compositor shifts the
  upsampled B by \<open>(dx, dy) = (1, 1)\<close>, G by \<open>(1, 0)\<close>, W by \<open>(0, 1)\<close> and leaves R unshifted.
\<close>

theorem shift_image_clamped:
  assumes "\<forall>row \<in> set X. length row = Wd" and "0 \<le> dx" and "0 \<le> dy"
    and "channels ''R'' = Some R0" and "channels ''G'' = Some G0" and "channels ''W'' = Some W0"
    and "channels ''B'' = Some B0" and "channels ''grayscale'' = Some gray"
  shows "length (shift_image X dx dy) = length X
       \<and> (\<forall>y < length X. length (shift_image X dx dy ! y) = Wd
            \<and> (\<forall>x < Wd. shift_image X dx dy ! y ! x
                  = (if dy \<le> int y \<and> dx \<le> int x then X ! nat (int y - dy) ! nat (int x - dx)
                     else 0)))
       \<and> merge_channels_into_color_image resize cvtColor channels =
           (case reconstruction_bgr (shift_image (resize B0) 1 1) (shift_image (resize G0) 1 0)
                   (shift_image (resize W0) 0 1) (resize R0) of
              Inl err \<Rightarrow> Inl err
            | Inr bgr \<Rightarrow> upsample_color_image cvtColor (reconstruction_grayscale gray) bgr ''LAB'',
            channels(''R'' \<mapsto> resize R0, ''G'' \<mapsto> shift_image (resize G0) 1 0,
                     ''W'' \<mapsto> shift_image (resize W0) 0 1, ''B'' \<mapsto> shift_image (resize B0) 1 1))"
  using shift_image_pixels [OF assms(1-3)] merge_present [OF assms(4-8)] by blast

theorem shift_image_clamped_witness:
  "shift_image [[1, 2, 3], [4, 5, 6], [7, 8, 9]] 1 1 ! 0 ! 2 = 0
   \<and> shift_image [[1, 2, 3], [4, 5, 6], [7, 8, 9]] 1 1 ! 2 ! 0 = 0
   \<and> shift_image [[1, 2, 3], [4, 5, 6], [7, 8, 9]] 1 1 ! 2 ! 2 = 5
   \<and> [''R'' \<mapsto> [[1::real]], ''G'' \<mapsto> [[1]], ''W'' \<mapsto> [[1]], ''B'' \<mapsto> [[1]], ''grayscale'' \<mapsto> [[1]]] ''B''
        = Some [[1]]
   \<and> snd (merge_channels_into_color_image (\<lambda>X. X) (\<lambda>code img. img)
          [''R'' \<mapsto> [[1]], ''G'' \<mapsto> [[1]], ''W'' \<mapsto> [[1]], ''B'' \<mapsto> [[1]], ''grayscale'' \<mapsto> [[1]]]) ''B''
        = Some (shift_image [[1]] 1 1)"
proof -
  let ?X = "[[1, 2, 3], [4, 5, 6], [7, 8, 9]] :: image"
  let ?ch = "[''R'' \<mapsto> [[1::real]], ''G'' \<mapsto> [[1]], ''W'' \<mapsto> [[1]], ''B'' \<mapsto> [[1]], ''grayscale'' \<mapsto> [[1]]]"
  have rect: "\<forall>row \<in> set ?X. length row = 3" by simp
  have keys: "?ch ''R'' = Some [[1]]" "?ch ''G'' = Some [[1]]" "?ch ''W'' = Some [[1]]"
    "?ch ''B'' = Some [[1]]" "?ch ''grayscale'' = Some [[1]]"
    by simp_all
  have one: "(0::int) \<le> 1" by simp
  note inst = shift_image_clamped [OF rect one one keys, of "\<lambda>X. X" "\<lambda>code img. img"]
  from inst have px: "\<forall>y < length ?X. length (shift_image ?X 1 1 ! y) = 3
            \<and> (\<forall>x < 3. shift_image ?X 1 1 ! y ! x
                  = (if 1 \<le> int y \<and> 1 \<le> int x then ?X ! nat (int y - 1) ! nat (int x - 1)
                     else 0))"
    by blast
  have px2: "shift_image ?X 1 1 ! y ! x
      = (if 1 \<le> int y \<and> 1 \<le> int x then ?X ! nat (int y - 1) ! nat (int x - 1) else 0)"
    if "y < 3" "x < 3" for y x
    using px that by simp
  have a: "shift_image ?X 1 1 ! 0 ! 2 = 0" using px2 [of 0 2] by simp
  have b: "shift_image ?X 1 1 ! 2 ! 0 = 0" using px2 [of 2 0] by simp
  have c: "shift_image ?X 1 1 ! 2 ! 2 = 5" using px2 [of 2 2] by simp
  from inst have m: "merge_channels_into_color_image (\<lambda>X. X) (\<lambda>code img. img) ?ch =
           (case reconstruction_bgr (shift_image [[1]] 1 1) (shift_image [[1]] 1 0)
                   (shift_image [[1]] 0 1) [[1]] of
              Inl err \<Rightarrow> Inl err
            | Inr bgr \<Rightarrow> upsample_color_image (\<lambda>code img. img) (reconstruction_grayscale [[1]]) bgr ''LAB'',
            ?ch(''R'' \<mapsto> [[1]], ''G'' \<mapsto> shift_image [[1]] 1 0,
                ''W'' \<mapsto> shift_image [[1]] 0 1, ''B'' \<mapsto> shift_image [[1]] 1 1))"
    by blast
  have "snd (merge_channels_into_color_image (\<lambda>X. X) (\<lambda>code img. img) ?ch) ''B''
        = Some (shift_image [[1]] 1 1)"
    unfolding m by simp
  then show ?thesis using a b c keys(4) by blast
qed





text \<open>
  Claim C5, as the code has it.  The voxel-grid builder returns a new grid but rewrites the
  caller's event array: once the assertions hold and the batch is non-empty, column 0 holds
  the normalized bin positions and every polarity 0 in column 3 has become -1, while the
  \<open>x\<close> and \<open>y\<close> columns and the number of rows are unchanged; otherwise the array is untouched.
  The compositor stores the upsampled and shifted arrays under the keys R, G, W and B of the
  caller's dictionary and leaves every other entry, the grayscale one included, as it was;
  when a key is missing the dictionary is untouched.
\<close>

theorem caller_visible_effects:
  "(0 < nb \<and> 0 < w \<and> 0 < h \<and> events \<noteq> [] \<longrightarrow>
      snd (events_to_voxel_grid events nb w h) = rewrite_pols (rewrite_ts events nb)
    \<and> length (snd (events_to_voxel_grid events nb w h)) = length events
    \<and> map ev_t (snd (events_to_voxel_grid events nb w h))
         = map (\<lambda>e. normalize_ts events nb (ev_t e)) events
    \<and> map ev_x (snd (events_to_voxel_grid events nb w h)) = map ev_x events
    \<and> map ev_y (snd (events_to_voxel_grid events nb w h)) = map ev_y events
    \<and> map ev_p (snd (events_to_voxel_grid events nb w h)) = map (\<lambda>e. fix_pol (ev_p e)) events)
   \<and> (\<not> (0 < nb \<and> 0 < w \<and> 0 < h \<and> events \<noteq> []) \<longrightarrow>
        snd (events_to_voxel_grid events nb w h) = events)
   \<and> (channels ''R'' = Some R0 \<and> channels ''G'' = Some G0 \<and> channels ''W'' = Some W0
        \<and> channels ''B'' = Some B0 \<and> channels ''grayscale'' = Some gray \<longrightarrow>
        snd (merge_channels_into_color_image resize cvtColor channels)
          = channels(''R'' \<mapsto> resize R0, ''G'' \<mapsto> shift_image (resize G0) 1 0,
                     ''W'' \<mapsto> shift_image (resize W0) 0 1, ''B'' \<mapsto> shift_image (resize B0) 1 1)
      \<and> snd (merge_channels_into_color_image resize cvtColor channels) ''grayscale'' = Some gray)
   \<and> (channels ''R'' = None \<or> channels ''G'' = None \<or> channels ''W'' = None
        \<or> channels ''B'' = None \<or> channels ''grayscale'' = None \<longrightarrow>
        snd (merge_channels_into_color_image resize cvtColor channels) = channels)"
proof (intro conjI impI)
  assume a: "0 < nb \<and> 0 < w \<and> 0 < h \<and> events \<noteq> []"
  then have after: "snd (events_to_voxel_grid events nb w h) = rewrite_pols (rewrite_ts events nb)"
    by (simp add: np_events_after)
  show "snd (events_to_voxel_grid events nb w h) = rewrite_pols (rewrite_ts events nb)"
    by (rule after)
  show "length (snd (events_to_voxel_grid events nb w h)) = length events"
    unfolding after by (simp add: rewrite_pols_def rewrite_ts_def)
  show "map ev_t (snd (events_to_voxel_grid events nb w h))
         = map (\<lambda>e. normalize_ts events nb (ev_t e)) events"
    unfolding after by (simp add: rewrite_pols_def rewrite_ts_def o_def)
  show "map ev_x (snd (events_to_voxel_grid events nb w h)) = map ev_x events"
    unfolding after by (simp add: rewrite_pols_def rewrite_ts_def o_def)
  show "map ev_y (snd (events_to_voxel_grid events nb w h)) = map ev_y events"
    unfolding after by (simp add: rewrite_pols_def rewrite_ts_def o_def)
  show "map ev_p (snd (events_to_voxel_grid events nb w h)) = map (\<lambda>e. fix_pol (ev_p e)) events"
    unfolding after by (simp add: rewrite_pols_def rewrite_ts_def o_def)
next
  assume "\<not> (0 < nb \<and> 0 < w \<and> 0 < h \<and> events \<noteq> [])"
  then show "snd (events_to_voxel_grid events nb w h) = events"
    by (auto simp: events_to_voxel_grid_def)
next
  assume k: "channels ''R'' = Some R0 \<and> channels ''G'' = Some G0 \<and> channels ''W'' = Some W0
        \<and> channels ''B'' = Some B0 \<and> channels ''grayscale'' = Some gray"
  then have m: "snd (merge_channels_into_color_image resize cvtColor channels)
          = channels(''R'' \<mapsto> resize R0, ''G'' \<mapsto> shift_image (resize G0) 1 0,
                     ''W'' \<mapsto> shift_image (resize W0) 0 1, ''B'' \<mapsto> shift_image (resize B0) 1 1)"
    by (simp add: merge_present)
  show "snd (merge_channels_into_color_image resize cvtColor channels)
          = channels(''R'' \<mapsto> resize R0, ''G'' \<mapsto> shift_image (resize G0) 1 0,
                     ''W'' \<mapsto> shift_image (resize W0) 0 1, ''B'' \<mapsto> shift_image (resize B0) 1 1)"
    by (rule m)
  show "snd (merge_channels_into_color_image resize cvtColor channels) ''grayscale'' = Some gray"
    unfolding m using k by simp
next
  assume "channels ''R'' = None \<or> channels ''G'' = None \<or> channels ''W'' = None
        \<or> channels ''B'' = None \<or> channels ''grayscale'' = None"
  then show "snd (merge_channels_into_color_image resize cvtColor channels) = channels"
    by (simp add: merge_missing)
qed

theorem builder_rewrites_events_counterexample:
  "snd (events_to_voxel_grid [(5, 0, 0, 0), (7, 0, 0, 1)] 2 1 1) = [(0, 0, 0, - 1), (1, 0, 0, 1)]
   \<and> snd (events_to_voxel_grid [(5, 0, 0, 0), (7, 0, 0, 1)] 2 1 1) \<noteq> [(5, 0, 0, 0), (7, 0, 0, 1)]
   \<and> fst (events_to_voxel_grid [(5, 0, 0, 0), (7, 0, 0, 1)] 2 1 1) = Inr [[[- 1]], [[1]]]"
  by (intro conjI; code_simp)


theorem caller_visible_effects_witness:
  "snd (events_to_voxel_grid [(5, 0, 0, 0), (7, 0, 0, 1)] 2 1 1)
      = rewrite_pols (rewrite_ts [(5, 0, 0, 0), (7, 0, 0, 1)] 2)
   \<and> map ev_x (snd (events_to_voxel_grid [(5, 0, 0, 0), (7, 0, 0, 1)] 2 1 1)) = [0, 0]
   \<and> map ev_p (snd (events_to_voxel_grid [(5, 0, 0, 0), (7, 0, 0, 1)] 2 1 1)) = [- 1, 1]
   \<and> snd (events_to_voxel_grid [] 2 1 1) = []
   \<and> snd (merge_channels_into_color_image (\<lambda>X. X) (\<lambda>code img. img)
          [''R'' \<mapsto> [[1]], ''G'' \<mapsto> [[1]], ''W'' \<mapsto> [[1]], ''B'' \<mapsto> [[1]], ''grayscale'' \<mapsto> [[1]]])
        ''grayscale'' = Some [[1]]
   \<and> snd (merge_channels_into_color_image (\<lambda>X. X) (\<lambda>code img. img) Map.empty) = Map.empty"
proof -
  let ?E = "[(5, 0, 0, 0), (7, 0, 0, 1)] :: event list"
  let ?ch = "[''R'' \<mapsto> [[1::real]], ''G'' \<mapsto> [[1]], ''W'' \<mapsto> [[1]], ''B'' \<mapsto> [[1]], ''grayscale'' \<mapsto> [[1]]]"
  note a = caller_visible_effects [where nb = 2 and w = 1 and h = 1 and events = ?E
      and channels = ?ch and ?R0.0 = "[[1]]" and ?G0.0 = "[[1]]" and ?W0.0 = "[[1]]"
      and ?B0.0 = "[[1]]" and gray = "[[1]]" and resize = "\<lambda>X. X" and cvtColor = "\<lambda>code img. img"]
  note b = caller_visible_effects [where nb = 2 and w = 1 and h = 1 and events = "[]"
      and channels = Map.empty and resize = "\<lambda>X. X" and cvtColor = "\<lambda>code img. img"]
  have 1: "snd (events_to_voxel_grid ?E 2 1 1) = rewrite_pols (rewrite_ts ?E 2)"
    using a by simp
  have x0: "map ev_x (snd (events_to_voxel_grid ?E 2 1 1)) = [0, 0]"
    using a by (simp add: rewrite_pols_def rewrite_ts_def)
  have p0: "map ev_p (snd (events_to_voxel_grid ?E 2 1 1)) = [- 1, 1]"
    using a by (simp add: rewrite_pols_def rewrite_ts_def fix_pol_def)
  have 4: "snd (merge_channels_into_color_image (\<lambda>X. X) (\<lambda>code img. img) ?ch) ''grayscale'' = Some [[1]]"
    using a by simp
  have 5: "snd (events_to_voxel_grid [] 2 1 1) = []"
    using b by simp
  have 6: "snd (merge_channels_into_color_image (\<lambda>X. X) (\<lambda>code img. img) Map.empty) = Map.empty"
    using b by simp
  show ?thesis using 1 x0 p0 4 5 6 by blast
qed

section \<open>Size alignment: working resolution, padding and crop window\<close>

lemma ceil_half: "\<lceil>0.5 * real_of_int d\<rceil> = (d + 1) div 2"
  by linarith
lemma floor_half: "\<lfloor>0.5 * real_of_int d\<rfloor> = d div 2"
  by linarith
lemma floor_half2: "\<lfloor>real_of_int d / 2\<rfloor> = d div 2"
  by linarith
lemma ceil_half2: "\<lceil>real_of_int d / 2\<rceil> = (d + 1) div 2"
  by linarith

lemma ceil_pow: "\<lceil>real_of_int d / real_of_int (2 ^ n)\<rceil> = - ((- d) div 2 ^ n)"
  by (simp only: ceiling_divide_eq_div)

lemma ocs_int: "optimal_crop_size d n m = 2 ^ n * (- ((- d) div 2 ^ n)) + m * 2 ^ n"
  unfolding optimal_crop_size_def Let_def ceil_pow ..

lemma ocs_dvd: "2 ^ n dvd optimal_crop_size d n m"
  by (simp add: ocs_int)

lemma ocs_ge: "d \<le> optimal_crop_size d n 0"
proof -
  have "(2::int) ^ n > 0" by simp
  then have "(- d) div 2 ^ n * 2 ^ n \<le> - d"
    by (metis add.commute add_0 add_le_cancel_right div_mult_mod_eq pos_mod_sign)
  then show ?thesis by (simp add: ocs_int mult.commute)
qed

lemma ocs_least: assumes "2 ^ n dvd k" "d \<le> k" shows "optimal_crop_size d n 0 \<le> k"
proof -
  obtain q where k: "k = 2 ^ n * q" using assms(1) by (auto simp: dvd_def)
  have pos: "(2::int) ^ n > 0" by simp
  have "- k \<le> - d" using assms(2) by simp
  then have "(- k) div 2 ^ n \<le> (- d) div 2 ^ n" using pos by (rule zdiv_mono1)
  moreover have "(- k) div 2 ^ n = - q"
  proof -
    have "- k = 2 ^ n * (- q)" using k by simp
    then show ?thesis using pos by (simp only: nonzero_mult_div_cancel_left)
  qed
  ultimately have "- ((- d) div 2 ^ n) \<le> q" by simp
  then have "2 ^ n * (- ((- d) div 2 ^ n)) \<le> 2 ^ n * q" using pos by (simp only: mult_le_cancel_left_pos)
  then show ?thesis by (simp add: ocs_int k)
qed

lemma py_slice_window:
  assumes "0 \<le> a" "a \<le> b" "b \<le> int (length xs)"
  shows "py_slice xs a b = take (nat (b - a)) (drop (nat a) xs)"
  using assms by (simp add: py_slice_def Let_def min_def)

lemma pad_row_window:
  "take (length row) (drop pl (pad_row f pl pr row)) = row"
  by (simp add: pad_row_def)

lemma length_pad_row: "length (pad_row f pl pr row) = pl + length row + pr"
  by (simp add: pad_row_def)

lemma pad_image_window:
  "take (length img) (drop pt (pad_image fill pl pr pt pb img))
     = map (\<lambda>(r, row). pad_row (fill (pt + r)) pl pr row) (enumerate 0 img)"
  by (simp add: pad_image_def Let_def)

lemma length_pad_image: "length (pad_image fill pl pr pt pb img) = pt + length img + pb"
  by (simp add: pad_image_def Let_def)

lemma cp_fields:
  "width_crop_size (CropParameters_init w h n m) = optimal_crop_size w n m"
  "height_crop_size (CropParameters_init w h n m) = optimal_crop_size h n m"
  "padding_left (CropParameters_init w h n m) = (optimal_crop_size w n m - w + 1) div 2"
  "padding_right (CropParameters_init w h n m) = (optimal_crop_size w n m - w) div 2"
  "padding_top (CropParameters_init w h n m) = (optimal_crop_size h n m - h + 1) div 2"
  "padding_bottom (CropParameters_init w h n m) = (optimal_crop_size h n m - h) div 2"
  "cx (CropParameters_init w h n m) = optimal_crop_size w n m div 2"
  "cy (CropParameters_init w h n m) = optimal_crop_size h n m div 2"
  "ix0 (CropParameters_init w h n m) = optimal_crop_size w n m div 2 - w div 2"
  "ix1 (CropParameters_init w h n m) = optimal_crop_size w n m div 2 + (w + 1) div 2"
  "iy0 (CropParameters_init w h n m) = optimal_crop_size h n m div 2 - h div 2"
  "iy1 (CropParameters_init w h n m) = optimal_crop_size h n m div 2 + (h + 1) div 2"
  unfolding CropParameters_init_def Let_def ceil_half floor_half floor_half2 ceil_half2
  by simp_all

lemma ocs_even_or_same: "even (optimal_crop_size d n 0) \<or> optimal_crop_size d n 0 = d"
  by (cases n) (simp_all add: ocs_int)

lemma window_eq_pad:
  assumes "even W \<or> W = d"
  shows "W div 2 - d div 2 = (W - d + 1) div (2::int)" "W div 2 + (d + 1) div 2 = (W - d + 1) div 2 + d"
  using assms by (auto elim!: evenE) 

lemma pad_nonneg: "d \<le> W \<Longrightarrow> 0 \<le> (W - d + 1) div (2::int)" "d \<le> W \<Longrightarrow> 0 \<le> (W - d) div (2::int)"
  by presburger+

lemma pad_split: "(W - d + 1) div 2 + (W - d) div 2 = (W - d :: int)"
  by presburger

lemma crop_pad_rows:
  assumes "\<forall>row \<in> set img. length row = W"
  shows "map (\<lambda>row. take W (drop pl row))
           (map (\<lambda>(r, row). pad_row (fill (pt + r)) pl pr row) (enumerate k img)) = img"
  using assms by (induction img arbitrary: k) (simp_all add: pad_row_def)


lemma ocs_spec: "optimal_crop_size d n m = 2 ^ n * \<lceil>real_of_int d / 2 ^ n\<rceil> + m * 2 ^ n"
  by (simp add: optimal_crop_size_def)

lemma half_real: "\<lceil>real_of_int D / 2\<rceil> = (D + 1) div 2" "\<lfloor>real_of_int D / 2\<rfloor> = D div 2"
  by linarith+

lemma dim_aligned:
  fixes d :: int
  assumes W: "W = optimal_crop_size d n m"
    and pb: "pb = (W - d + 1) div 2" and pa: "pa = (W - d) div 2"
  shows "W = 2 ^ n * \<lceil>real_of_int d / 2 ^ n\<rceil> + m * 2 ^ n
       \<and> 2 ^ n dvd W
       \<and> (m = 0 \<longrightarrow> d \<le> W \<and> (\<forall>k. 2 ^ n dvd k \<and> d \<le> k \<longrightarrow> W \<le> k))
       \<and> pb = \<lceil>real_of_int (W - d) / 2\<rceil>
       \<and> pa = \<lfloor>real_of_int (W - d) / 2\<rfloor>
       \<and> pb + pa = W - d
       \<and> (odd (W - d) \<longrightarrow> pb = pa + 1)"
proof (intro conjI)
  show "W = 2 ^ n * \<lceil>real_of_int d / 2 ^ n\<rceil> + m * 2 ^ n"
    unfolding W by (rule ocs_spec)
  show "2 ^ n dvd W" unfolding W by (rule ocs_dvd)
  show "m = 0 \<longrightarrow> d \<le> W \<and> (\<forall>k. 2 ^ n dvd k \<and> d \<le> k \<longrightarrow> W \<le> k)"
    unfolding W using ocs_ge ocs_least by blast
  show "pb = \<lceil>real_of_int (W - d) / 2\<rceil>" unfolding pb half_real ..
  show "pa = \<lfloor>real_of_int (W - d) / 2\<rfloor>" unfolding pa half_real ..
  show "pb + pa = W - d" unfolding pb pa by (rule pad_split)
  show "odd (W - d) \<longrightarrow> pb = pa + 1" unfolding pb pa by (auto elim!: oddE)
qed

text \<open>
  Claim C6.  For positive true dimensions and a non-negative safety margin, each working
  dimension computed by \<open>CropParameters\<close> is \<open>2^n * ceil(true / 2^n) + margin * 2^n\<close>; it is
  divisible by \<open>2^n\<close> and, for margin 0, it is the least multiple of \<open>2^n\<close> that is at least the
  true dimension.  The leading padding is \<open>ceil((working - true) / 2)\<close>, the trailing one
  \<open>floor((working - true) / 2)\<close>; they add up to \<open>working - true\<close>, and the leading one is one
  larger when the difference is odd.
\<close>

theorem crop_size_and_padding_split:
  assumes "0 < w" and "0 < h" and "0 \<le> m" and cp: "cp = CropParameters_init w h n m"
  shows "(width_crop_size cp = 2 ^ n * \<lceil>real_of_int w / 2 ^ n\<rceil> + m * 2 ^ n
       \<and> 2 ^ n dvd width_crop_size cp
       \<and> (m = 0 \<longrightarrow> w \<le> width_crop_size cp
                    \<and> (\<forall>k. 2 ^ n dvd k \<and> w \<le> k \<longrightarrow> width_crop_size cp \<le> k))
       \<and> padding_left cp = \<lceil>real_of_int (width_crop_size cp - w) / 2\<rceil>
       \<and> padding_right cp = \<lfloor>real_of_int (width_crop_size cp - w) / 2\<rfloor>
       \<and> padding_left cp + padding_right cp = width_crop_size cp - w
       \<and> (odd (width_crop_size cp - w) \<longrightarrow> padding_left cp = padding_right cp + 1))
     \<and> (height_crop_size cp = 2 ^ n * \<lceil>real_of_int h / 2 ^ n\<rceil> + m * 2 ^ n
       \<and> 2 ^ n dvd height_crop_size cp
       \<and> (m = 0 \<longrightarrow> h \<le> height_crop_size cp
                    \<and> (\<forall>k. 2 ^ n dvd k \<and> h \<le> k \<longrightarrow> height_crop_size cp \<le> k))
       \<and> padding_top cp = \<lceil>real_of_int (height_crop_size cp - h) / 2\<rceil>
       \<and> padding_bottom cp = \<lfloor>real_of_int (height_crop_size cp - h) / 2\<rfloor>
       \<and> padding_top cp + padding_bottom cp = height_crop_size cp - h
       \<and> (odd (height_crop_size cp - h) \<longrightarrow> padding_top cp = padding_bottom cp + 1))"
proof (rule conjI)
  show "width_crop_size cp = 2 ^ n * \<lceil>real_of_int w / 2 ^ n\<rceil> + m * 2 ^ n
       \<and> 2 ^ n dvd width_crop_size cp
       \<and> (m = 0 \<longrightarrow> w \<le> width_crop_size cp
                    \<and> (\<forall>k. 2 ^ n dvd k \<and> w \<le> k \<longrightarrow> width_crop_size cp \<le> k))
       \<and> padding_left cp = \<lceil>real_of_int (width_crop_size cp - w) / 2\<rceil>
       \<and> padding_right cp = \<lfloor>real_of_int (width_crop_size cp - w) / 2\<rfloor>
       \<and> padding_left cp + padding_right cp = width_crop_size cp - w
       \<and> (odd (width_crop_size cp - w) \<longrightarrow> padding_left cp = padding_right cp + 1)"
    by (rule dim_aligned) (simp_all only: cp cp_fields)
  show "height_crop_size cp = 2 ^ n * \<lceil>real_of_int h / 2 ^ n\<rceil> + m * 2 ^ n
       \<and> 2 ^ n dvd height_crop_size cp
       \<and> (m = 0 \<longrightarrow> h \<le> height_crop_size cp
                    \<and> (\<forall>k. 2 ^ n dvd k \<and> h \<le> k \<longrightarrow> height_crop_size cp \<le> k))
       \<and> padding_top cp = \<lceil>real_of_int (height_crop_size cp - h) / 2\<rceil>
       \<and> padding_bottom cp = \<lfloor>real_of_int (height_crop_size cp - h) / 2\<rfloor>
       \<and> padding_top cp + padding_bottom cp = height_crop_size cp - h
       \<and> (odd (height_crop_size cp - h) \<longrightarrow> padding_top cp = padding_bottom cp + 1)"
    by (rule dim_aligned) (simp_all only: cp cp_fields)
qed

lemma cp_13_10: "CropParameters_init 13 10 2 0 =
   \<lparr> height = 10, width = 13, num_encoders = 2, width_crop_size = 16, height_crop_size = 12,
     padding_top = 1, padding_bottom = 1, padding_left = 2, padding_right = 1,
     cx = 8, cy = 6, ix0 = 2, ix1 = 15, iy0 = 1, iy1 = 11 \<rparr>"
  by (simp add: CropParameters_init_def optimal_crop_size_def Let_def)

theorem crop_size_and_padding_split_witness:
  "(0::int) < 13 \<and> (0::int) < 10 \<and> (0::int) \<le> 0
   \<and> width_crop_size (CropParameters_init 13 10 2 0) = 16
   \<and> (2::int) ^ 2 dvd width_crop_size (CropParameters_init 13 10 2 0)
   \<and> padding_left (CropParameters_init 13 10 2 0) = 2
   \<and> padding_right (CropParameters_init 13 10 2 0) = 1
   \<and> odd (width_crop_size (CropParameters_init 13 10 2 0) - 13)
   \<and> height_crop_size (CropParameters_init 13 10 2 0) = 12
   \<and> padding_top (CropParameters_init 13 10 2 0) = 1
   \<and> padding_bottom (CropParameters_init 13 10 2 0) = 1"
  using crop_size_and_padding_split [of 13 10 0 "CropParameters_init 13 10 2 0" 2]
  by (simp add: cp_13_10)


lemma crop_of_pad:
  assumes rows: "\<forall>row \<in> set img. length row = nat w" and len: "length img = nat h"
    and "0 \<le> w" "0 \<le> h"
    and x0: "ix0 cp = int pl" and x1: "ix1 cp = int pl + w"
    and y0: "iy0 cp = int pt" and y1: "iy1 cp = int pt + h"
  shows "crop_image cp (pad_image fill pl pr pt pb img) = img"
proof -
  let ?P = "pad_image fill pl pr pt pb img"
  have lenP: "length ?P = pt + length img + pb" by (rule length_pad_image)
  have "py_slice ?P (iy0 cp) (iy1 cp) = take (nat (iy1 cp - iy0 cp)) (drop (nat (iy0 cp)) ?P)"
    by (rule py_slice_window) (use assms lenP in simp_all)
  also have "\<dots> = take (length img) (drop pt ?P)" using assms by simp
  also have "\<dots> = map (\<lambda>(r, row). pad_row (fill (pt + r)) pl pr row) (enumerate 0 img)"
    by (rule pad_image_window)
  finally have rowsP: "py_slice ?P (iy0 cp) (iy1 cp)
      = map (\<lambda>(r, row). pad_row (fill (pt + r)) pl pr row) (enumerate 0 img)" .
  have "map (\<lambda>row. py_slice row (ix0 cp) (ix1 cp))
          (map (\<lambda>(r, row). pad_row (fill (pt + r)) pl pr row) (enumerate 0 img))
      = map (\<lambda>row. take (nat w) (drop pl row))
          (map (\<lambda>(r, row). pad_row (fill (pt + r)) pl pr row) (enumerate 0 img))"
  proof (rule map_cong [OF refl])
    fix row assume "row \<in> set (map (\<lambda>(r, row). pad_row (fill (pt + r)) pl pr row) (enumerate 0 img))"
    then obtain r where "r < length img" and rr: "row = pad_row (fill (pt + r)) pl pr (img ! r)"
      by (auto simp: in_set_enumerate_eq)
    define row0 where "row0 = img ! r"
    have r0: "row0 \<in> set img" and row: "row = pad_row (fill (pt + r)) pl pr row0"
      using \<open>r < length img\<close> rr by (simp_all add: row0_def)
    have "length row = pl + nat w + pr" using r0 rows by (simp add: row length_pad_row)
    then have "py_slice row (ix0 cp) (ix1 cp) = take (nat (ix1 cp - ix0 cp)) (drop (nat (ix0 cp)) row)"
      using assms by (intro py_slice_window) simp_all
    then show "py_slice row (ix0 cp) (ix1 cp) = take (nat w) (drop pl row)"
      using x0 x1 by simp
  qed
  also have "\<dots> = img" using rows by (rule crop_pad_rows)
  finally show ?thesis by (simp add: crop_image_def rowsP)
qed

lemma cp_window:
  assumes cp: "cp = CropParameters_init w h n 0"
  shows "0 \<le> padding_left cp" "0 \<le> padding_right cp" "0 \<le> padding_top cp" "0 \<le> padding_bottom cp"
    "ix0 cp = padding_left cp" "ix1 cp = padding_left cp + w"
    "iy0 cp = padding_top cp" "iy1 cp = padding_top cp + h"
  unfolding cp cp_fields
  by (simp_all add: pad_nonneg ocs_ge window_eq_pad ocs_even_or_same)

text \<open>
  Claim C4.  With safety margin 0, padding a true-resolution image by the four computed
  amounts, whatever the border values are, and cropping the result with the centre-based
  window \<open>iy0:iy1, ix0:ix1\<close> gives back the image.  The paddings are non-negative and the window
  starts right after the leading padding and is as wide and as high as the image, so no
  border pixel is read.
\<close>

theorem pad_then_crop_roundtrip:
  assumes "0 < w" and "0 < h"
    and "length img = nat h" and "\<forall>row \<in> set img. length row = nat w"
    and "cp = CropParameters_init w h n 0"
  shows "crop_image cp (pad_image fill (nat (padding_left cp)) (nat (padding_right cp))
                          (nat (padding_top cp)) (nat (padding_bottom cp)) img) = img
       \<and> 0 \<le> padding_left cp \<and> 0 \<le> padding_right cp
       \<and> 0 \<le> padding_top cp \<and> 0 \<le> padding_bottom cp
       \<and> ix0 cp = padding_left cp \<and> ix1 cp = padding_left cp + w
       \<and> iy0 cp = padding_top cp \<and> iy1 cp = padding_top cp + h"
proof -
  note win = cp_window [OF assms(5)]
  have "crop_image cp (pad_image fill (nat (padding_left cp)) (nat (padding_right cp))
                          (nat (padding_top cp)) (nat (padding_bottom cp)) img) = img"
    by (rule crop_of_pad [where w = w and h = h]) (use assms win in simp_all)
  then show ?thesis using win by simp
qed

theorem pad_then_crop_roundtrip_witness:
  "(0::int) < 3 \<and> (0::int) < 2
   \<and> crop_image (CropParameters_init 3 2 2 0)
        (pad_image (\<lambda>r c. 100 + 10 * r + c) 1 0 1 1 [[1, 2, 3], [4, 5, 6::nat]])
       = [[1, 2, 3], [4, 5, 6]]
   \<and> pad_image (\<lambda>r c. 100 + 10 * r + c) 1 0 1 1 [[1, 2, 3], [4, 5, 6::nat]]
       = [[100, 101, 102, 103], [110, 1, 2, 3], [120, 4, 5, 6], [130, 131, 132, 133]]"
proof -
  have cp: "CropParameters_init 3 2 2 0 =
    \<lparr> height = 2, width = 3, num_encoders = 2, width_crop_size = 4, height_crop_size = 4,
      padding_top = 1, padding_bottom = 1, padding_left = 1, padding_right = 0,
      cx = 2, cy = 2, ix0 = 1, ix1 = 4, iy0 = 1, iy1 = 3 \<rparr>"
    unfolding CropParameters_init_def Let_def ceil_half floor_half floor_half2 ceil_half2 ocs_int
    by simp
  have pad: "pad_image (\<lambda>r c. 100 + 10 * r + c) 1 0 1 1 [[1, 2, 3], [4, 5, 6::nat]]
       = [[100, 101, 102, 103], [110, 1, 2, 3], [120, 4, 5, 6], [130, 131, 132, 133]]"
    by (simp add: pad_image_def pad_row_def enumerate_eq_zip upt_rec)
  have "crop_image (CropParameters_init 3 2 2 0)
        (pad_image (\<lambda>r c. 100 + 10 * r + c)
           (nat (padding_left (CropParameters_init 3 2 2 0)))
           (nat (padding_right (CropParameters_init 3 2 2 0)))
           (nat (padding_top (CropParameters_init 3 2 2 0)))
           (nat (padding_bottom (CropParameters_init 3 2 2 0))) [[1, 2, 3], [4, 5, 6::nat]])
       = [[1, 2, 3], [4, 5, 6]]"
    using pad_then_crop_roundtrip [of 3 2 "[[1, 2, 3], [4, 5, 6::nat]]"
        "CropParameters_init 3 2 2 0" 2 "\<lambda>r c. 100 + 10 * r + c"]
    by simp
  moreover have "nat (padding_left (CropParameters_init 3 2 2 0)) = 1"
    "nat (padding_right (CropParameters_init 3 2 2 0)) = 0"
    "nat (padding_top (CropParameters_init 3 2 2 0)) = 1"
    "nat (padding_bottom (CropParameters_init 3 2 2 0)) = 1"
    by (simp_all add: cp)
  ultimately show ?thesis using pad by simp
qed

text \<open>
  Claim C7.  For a 13 x 13 image and 2 levels, the working size is 16 x 16, the leading
  paddings are 2 and the trailing ones 1, the centre is 8 and the crop window is \<open>2:15\<close> on
  both axes; applied to any 16 x 16 canvas the window returns the 13 x 13 sub-image whose
  pixel \<open>(r, c)\<close> is the canvas pixel \<open>(r + 2, c + 2)\<close>.
\<close>

theorem alignment_13_13_2:
  assumes "length canvas = 16" and "\<forall>row \<in> set canvas. length row = 16"
  shows "CropParameters_init 13 13 2 0 =
     \<lparr> height = 13, width = 13, num_encoders = 2, width_crop_size = 16, height_crop_size = 16,
       padding_top = 2, padding_bottom = 1, padding_left = 2, padding_right = 1,
       cx = 8, cy = 8, ix0 = 2, ix1 = 15, iy0 = 2, iy1 = 15 \<rparr>
   \<and> length (crop_image (CropParameters_init 13 13 2 0) canvas) = 13
   \<and> (\<forall>row \<in> set (crop_image (CropParameters_init 13 13 2 0) canvas). length row = 13)
   \<and> (\<forall>r < 13. \<forall>c < 13. crop_image (CropParameters_init 13 13 2 0) canvas ! r ! c
                              = canvas ! (r + 2) ! (c + 2))"
proof -
  have cp: "CropParameters_init 13 13 2 0 =
     \<lparr> height = 13, width = 13, num_encoders = 2, width_crop_size = 16, height_crop_size = 16,
       padding_top = 2, padding_bottom = 1, padding_left = 2, padding_right = 1,
       cx = 8, cy = 8, ix0 = 2, ix1 = 15, iy0 = 2, iy1 = 15 \<rparr>"
    by (simp add: CropParameters_init_def optimal_crop_size_def Let_def)
  have sl: "length xs = 16 \<Longrightarrow> py_slice xs 2 15 = take 13 (drop 2 xs)" for xs :: "'b list"
    by (simp add: py_slice_def Let_def)
  have crop: "crop_image (CropParameters_init 13 13 2 0) canvas
      = map (\<lambda>row. take 13 (drop 2 row)) (take 13 (drop 2 canvas))"
    unfolding crop_image_def cp using assms
    by (auto simp: sl dest!: in_set_takeD in_set_dropD)
  have rows: "length (canvas ! (r + 2)) = 16" if "r < 13" for r
    using assms that by simp
  show ?thesis
    unfolding crop using assms rows
    by (auto simp: cp dest!: in_set_takeD in_set_dropD)
qed

theorem alignment_13_13_2_witness:
  "length (crop_image (CropParameters_init 13 13 2 0) (replicate 16 (replicate 16 (0::nat)))) = 13
   \<and> crop_image (CropParameters_init 13 13 2 0) (replicate 16 (replicate 16 (0::nat))) ! 0 ! 0 = 0"
proof -
  let ?C = "replicate 16 (replicate 16 (0::nat))"
  have "length ?C = 16" and "\<forall>row \<in> set ?C. length row = 16" by simp_all
  from alignment_13_13_2 [OF this]
  have len: "length (crop_image (CropParameters_init 13 13 2 0) ?C) = 13"
    and px: "\<forall>r < 13. \<forall>c < 13. crop_image (CropParameters_init 13 13 2 0) ?C ! r ! c
                              = ?C ! (r + 2) ! (c + 2)"
    by blast+
  from px have "crop_image (CropParameters_init 13 13 2 0) ?C ! 0 ! 0 = ?C ! (0 + 2) ! (0 + 2)"
    by (metis zero_less_numeral)
  then show ?thesis using len by simp
qed


end
